theory Spec2Isabelle
  imports Complex_Main "HOL-Library.Word"
begin

section \<open>SceneManager: tagged texture and material registries, shader binding\<close>

text \<open>
  A shallow embedding of \<^verbatim>\<open>SceneManager.cpp\<close>. The C++ object and the external
  collaborators it drives (the shader's uniform store, the OpenGL texture units, the image
  decoder, the console) are one explicit state that every method takes and returns.
  A method that would dereference a null pointer or index the slot array out of range
  returns a \<open>fault\<close> instead of a state.

  C++ \<^verbatim>\<open>float\<close> values are modelled as \<open>real\<close>: a literal stands for the decimal
  it is written as, and rounding is outside the model. \<^verbatim>\<open>int\<close> is \<open>int\<close> (no method
  here computes near the 32-bit limits), \<^verbatim>\<open>GLuint\<close> is \<open>32 word\<close>.

  \<^verbatim>\<open>RenderScene\<close>, \<^verbatim>\<open>DestroyGLTextures\<close> and the destructor take no part in the
  properties below and are not modelled.
\<close>

subsection \<open>Data model\<close>

datatype fault = NullPointerDereference | ArrayIndexOutOfBounds int

type_synonym vec2 = "real \<times> real"
type_synonym vec3 = "real \<times> real \<times> real"
type_synonym vec4 = "real \<times> real \<times> real \<times> real"

text \<open>A \<^verbatim>\<open>glm::mat4\<close> is stored by columns: four \<open>vec4\<close> columns.\<close>

type_synonym mat4 = "vec4 \<times> vec4 \<times> vec4 \<times> vec4"

record TEXTURE_INFO =
  ID :: "32 word"
  tag :: string

record OBJECT_MATERIAL =
  ambientColor :: vec3
  ambientStrength :: real
  diffuseColor :: vec3
  specularColor :: vec3
  shininess :: real
  tag :: string

text \<open>What the setters of the external \<^verbatim>\<open>ShaderManager\<close> accept.\<close>

datatype uniform_value =
    BoolValue bool
  | IntValue int
  | FloatValue real
  | Vec2Value vec2
  | Vec3Value vec3
  | Vec4Value vec4
  | Mat4Value mat4
  | Sampler2DValue int

datatype shader_ptr = NULL | ShaderPtr

datatype mesh = PlaneMesh | BoxMesh | SphereMesh | CylinderMesh | ConeMesh

text \<open>The result of \<^verbatim>\<open>stbi_load\<close> on a file that decodes.\<close>

record image =
  width :: int
  height :: int
  colorChannels :: int

datatype message =
    LoadedImage string int int int
  | UnsupportedChannels int
  | CouldNotLoad string

text \<open>
  The part of the OpenGL context the texture registry touches: the active texture unit,
  the texture bound to \<^verbatim>\<open>GL_TEXTURE_2D\<close> on each unit, and the next unused texture name
  handed out by \<^verbatim>\<open>glGenTextures\<close>. The contents of a texture object (its wrapping and
  filtering parameters, its pixels and mipmaps) are not read by any method and are left
  out.
\<close>

record gl_state =
  active_texture :: nat
  texture_binding_2d :: "nat \<Rightarrow> 32 word"
  next_texture_name :: "32 word"

text \<open>
  The fields \<open>m_...\<close> are those of the class. \<open>uniforms\<close> is the trace of uploads made
  through the shader manager, newest first; \<open>gl\<close> is the OpenGL context; \<open>console\<close> is
  what was written to \<^verbatim>\<open>std::cout\<close>, newest first. \<open>m_basicMeshes\<close> records the meshes
  the external \<^verbatim>\<open>ShapeMeshes\<close> object was asked to load, newest first.
\<close>

record SceneManager =
  m_pShaderManager :: shader_ptr
  m_basicMeshes :: "mesh list"
  m_textureIDs :: "TEXTURE_INFO list"
  m_loadedTextures :: int
  m_objectMaterials :: "OBJECT_MATERIAL list"
  uniforms :: "(string \<times> uniform_value) list"
  gl :: gl_state
  console :: "message list"

text \<open>
  Modelled from the spec: the bound of the array \<^verbatim>\<open>m_textureIDs\<close> is declared in
  \<^verbatim>\<open>SceneManager.h\<close>, which is not among the sources. The spec gives the capacity as
  16, and so does the comment of \<^verbatim>\<open>BindGLTextures\<close> ("There are up to 16 slots").
\<close>

definition texture_capacity :: nat where
  "texture_capacity = 16"

definition g_ModelName :: string where "g_ModelName = ''model''"
definition g_ColorValueName :: string where "g_ColorValueName = ''objectColor''"
definition g_TextureValueName :: string where "g_TextureValueName = ''objectTexture''"
definition g_UseTextureName :: string where "g_UseTextureName = ''bUseTexture''"
definition g_UseLightingName :: string where "g_UseLightingName = ''bUseLighting''"

definition initial_gl :: gl_state where
  "initial_gl =
     \<lparr>active_texture = 0, texture_binding_2d = (\<lambda>_. 0), next_texture_name = 1\<rparr>"

text \<open>
  The constructor. The array elements are default-constructed; the uniform store and the
  OpenGL context start empty.
\<close>

definition SceneManager_new :: "shader_ptr \<Rightarrow> SceneManager" where
  "SceneManager_new pShaderManager =
     \<lparr>m_pShaderManager = pShaderManager,
      m_basicMeshes = [],
      m_textureIDs = replicate texture_capacity \<lparr>ID = 0, tag = ''''\<rparr>,
      m_loadedTextures = 0,
      m_objectMaterials = [],
      uniforms = [],
      gl = initial_gl,
      console = []\<rparr>"

text \<open>The value a uniform holds: the latest upload under its name, if any.\<close>

definition uniform :: "SceneManager \<Rightarrow> string \<Rightarrow> uniform_value option" where
  "uniform sm name = map_of (uniforms sm) name"

subsection \<open>External calls\<close>

definition cout :: "message \<Rightarrow> SceneManager \<Rightarrow> SceneManager" where
  "cout m sm = sm\<lparr>console := m # console sm\<rparr>"

definition glGenTextures :: "SceneManager \<Rightarrow> 32 word \<times> SceneManager" where
  "glGenTextures sm =
     (next_texture_name (gl sm),
      sm\<lparr>gl := (gl sm)\<lparr>next_texture_name := next_texture_name (gl sm) + 1\<rparr>\<rparr>)"

definition glBindTexture :: "32 word \<Rightarrow> SceneManager \<Rightarrow> SceneManager" where
  "glBindTexture texture sm =
     sm\<lparr>gl := (gl sm)\<lparr>texture_binding_2d :=
       (texture_binding_2d (gl sm))(active_texture (gl sm) := texture)\<rparr>\<rparr>"

definition glActiveTexture :: "nat \<Rightarrow> SceneManager \<Rightarrow> SceneManager" where
  "glActiveTexture unit sm = sm\<lparr>gl := (gl sm)\<lparr>active_texture := unit\<rparr>\<rparr>"

text \<open>
  Every setter of the shader manager is a call through \<^verbatim>\<open>m_pShaderManager\<close>: it faults
  when the pointer is null and records the upload otherwise.
\<close>

definition setValue ::
  "string \<Rightarrow> uniform_value \<Rightarrow> SceneManager \<Rightarrow> fault + SceneManager" where
  "setValue name v sm =
     (case m_pShaderManager sm of
        NULL \<Rightarrow> Inl NullPointerDereference
      | ShaderPtr \<Rightarrow> Inr (sm\<lparr>uniforms := (name, v) # uniforms sm\<rparr>))"

text \<open>A block of statements, run in order until one faults.\<close>

fun run ::
  "(SceneManager \<Rightarrow> fault + SceneManager) list \<Rightarrow> SceneManager \<Rightarrow> fault + SceneManager"
where
  "run [] sm = Inr sm"
| "run (stmt # stmts) sm =
     (case stmt sm of Inl e \<Rightarrow> Inl e | Inr sm' \<Rightarrow> run stmts sm')"

text \<open>Reading \<^verbatim>\<open>m_textureIDs[i]\<close>.\<close>

definition texture_at :: "SceneManager \<Rightarrow> int \<Rightarrow> fault + TEXTURE_INFO" where
  "texture_at sm i =
     (if 0 \<le> i \<and> i < int (length (m_textureIDs sm))
      then Inr (m_textureIDs sm ! nat i)
      else Inl (ArrayIndexOutOfBounds i))"

subsection \<open>Texture registry\<close>

text \<open>
  \<^verbatim>\<open>CreateGLTexture\<close>. The decoder is the parameter \<open>stbi_load\<close>: \<open>None\<close> is the null
  pointer it returns for a file it cannot decode. The early return for an unsupported
  channel count comes after the texture was generated and bound, and before anything is
  registered.
\<close>

definition CreateGLTexture ::
  "(string \<Rightarrow> image option) \<Rightarrow> string \<Rightarrow> string \<Rightarrow> SceneManager
     \<Rightarrow> fault + (bool \<times> SceneManager)" where
  "CreateGLTexture stbi_load filename tag' sm =
     (case stbi_load filename of
        Some img \<Rightarrow>
          (let sm1 = cout (LoadedImage filename (width img) (height img)
                             (colorChannels img)) sm;
               (textureID, sm2) = glGenTextures sm1;
               sm3 = glBindTexture textureID sm2
           in if colorChannels img = 3 \<or> colorChannels img = 4 then
                (let sm4 = glBindTexture 0 sm3;
                     n = m_loadedTextures sm4
                 in if 0 \<le> n \<and> n < int (length (m_textureIDs sm4)) then
                      Inr (True,
                           sm4\<lparr>m_textureIDs :=
                                  (m_textureIDs sm4)[nat n := \<lparr>ID = textureID, tag = tag'\<rparr>],
                                m_loadedTextures := n + 1\<rparr>)
                    else Inl (ArrayIndexOutOfBounds n))
              else Inr (False, cout (UnsupportedChannels (colorChannels img)) sm3))
      | None \<Rightarrow> Inr (False, cout (CouldNotLoad filename) sm))"

function BindGLTextures_loop :: "int \<Rightarrow> SceneManager \<Rightarrow> fault + SceneManager" where
  "BindGLTextures_loop i sm =
     (if i < m_loadedTextures sm then
        (case texture_at sm i of
           Inl e \<Rightarrow> Inl e
         | Inr t \<Rightarrow>
             BindGLTextures_loop (i + 1)
               (glBindTexture (ID t) (glActiveTexture (nat i) sm)))
      else Inr sm)"
  by pat_completeness auto
termination
  by (relation "measure (\<lambda>(i, sm). nat (m_loadedTextures sm - i))")
     (auto simp: glBindTexture_def glActiveTexture_def)

definition BindGLTextures :: "SceneManager \<Rightarrow> fault + SceneManager" where
  "BindGLTextures sm = BindGLTextures_loop 0 sm"

function FindTextureID_loop ::
  "SceneManager \<Rightarrow> string \<Rightarrow> int \<Rightarrow> bool \<Rightarrow> int \<Rightarrow> fault + int" where
  "FindTextureID_loop sm tag' index bFound textureID =
     (if index < m_loadedTextures sm \<and> bFound = False then
        (case texture_at sm index of
           Inl e \<Rightarrow> Inl e
         | Inr t \<Rightarrow>
             if TEXTURE_INFO.tag t = tag'
             then FindTextureID_loop sm tag' index True (sint (ID t))
             else FindTextureID_loop sm tag' (index + 1) bFound textureID)
      else Inr textureID)"
  by pat_completeness auto
termination
  by (relation "measure (\<lambda>(sm, tag', index, bFound, textureID).
        nat (m_loadedTextures sm - index) + (if bFound then 0 else 1))") auto

definition FindTextureID :: "string \<Rightarrow> SceneManager \<Rightarrow> fault + int" where
  "FindTextureID tag' sm = FindTextureID_loop sm tag' 0 False (- 1)"

function FindTextureSlot_loop ::
  "SceneManager \<Rightarrow> string \<Rightarrow> int \<Rightarrow> bool \<Rightarrow> int \<Rightarrow> fault + int" where
  "FindTextureSlot_loop sm tag' index bFound textureSlot =
     (if index < m_loadedTextures sm \<and> bFound = False then
        (case texture_at sm index of
           Inl e \<Rightarrow> Inl e
         | Inr t \<Rightarrow>
             if TEXTURE_INFO.tag t = tag'
             then FindTextureSlot_loop sm tag' index True index
             else FindTextureSlot_loop sm tag' (index + 1) bFound textureSlot)
      else Inr textureSlot)"
  by pat_completeness auto
termination
  by (relation "measure (\<lambda>(sm, tag', index, bFound, textureSlot).
        nat (m_loadedTextures sm - index) + (if bFound then 0 else 1))") auto

definition FindTextureSlot :: "string \<Rightarrow> SceneManager \<Rightarrow> fault + int" where
  "FindTextureSlot tag' sm = FindTextureSlot_loop sm tag' 0 False (- 1)"

text \<open>The tags of the registered slots, in slot order.\<close>

definition registered_tags :: "SceneManager \<Rightarrow> string list" where
  "registered_tags sm =
     map TEXTURE_INFO.tag (take (nat (m_loadedTextures sm)) (m_textureIDs sm))"

text \<open>
  \<^verbatim>\<open>LoadSceneTextures\<close> ignores what \<^verbatim>\<open>CreateGLTexture\<close> returns; so does
  \<^verbatim>\<open>PrepareScene\<close>.
\<close>

definition CreateGLTexture_ignored ::
  "(string \<Rightarrow> image option) \<Rightarrow> string \<Rightarrow> string \<Rightarrow> SceneManager
     \<Rightarrow> fault + SceneManager" where
  "CreateGLTexture_ignored stbi_load filename tag' sm =
     (case CreateGLTexture stbi_load filename tag' sm of
        Inl e \<Rightarrow> Inl e
      | Inr (_, sm') \<Rightarrow> Inr sm')"

definition LoadSceneTextures ::
  "(string \<Rightarrow> image option) \<Rightarrow> SceneManager \<Rightarrow> fault + SceneManager" where
  "LoadSceneTextures stbi_load =
     run [CreateGLTexture_ignored stbi_load ''textures/oakd.jpg'' ''oakd'',
          CreateGLTexture_ignored stbi_load ''textures/oakl.jpg'' ''oakl'',
          CreateGLTexture_ignored stbi_load ''textures/brass.jpg'' ''brass'',
          BindGLTextures]"

subsection \<open>Material registry\<close>

text \<open>
  \<^verbatim>\<open>FindMaterial\<close>. The output parameter \<open>material\<close> is passed in and returned beside the
  boolean. The loop compares the \<^verbatim>\<open>int\<close> index with the unsigned \<^verbatim>\<open>size()\<close>; the index
  starts at 0 and only grows, and a negative one would convert to a value no smaller than
  any size, hence the first conjunct of the guard.
\<close>

function FindMaterial_loop ::
  "SceneManager \<Rightarrow> string \<Rightarrow> int \<Rightarrow> bool \<Rightarrow> OBJECT_MATERIAL \<Rightarrow> OBJECT_MATERIAL" where
  "FindMaterial_loop sm tag' index bFound material =
     (if (0 \<le> index \<and> index < int (length (m_objectMaterials sm))) \<and> bFound = False then
        (if OBJECT_MATERIAL.tag (m_objectMaterials sm ! nat index) = tag'
         then FindMaterial_loop sm tag' index True
                (material\<lparr>diffuseColor := diffuseColor (m_objectMaterials sm ! nat index),
                          specularColor := specularColor (m_objectMaterials sm ! nat index),
                          shininess := shininess (m_objectMaterials sm ! nat index),
                          ambientColor := ambientColor (m_objectMaterials sm ! nat index),
                          ambientStrength :=
                            ambientStrength (m_objectMaterials sm ! nat index)\<rparr>)
         else FindMaterial_loop sm tag' (index + 1) bFound material)
      else material)"
  by pat_completeness auto
termination
  by (relation "measure (\<lambda>(sm, tag', index, bFound, material).
        nat (int (length (m_objectMaterials sm)) - index) + (if bFound then 0 else 1))") auto

definition FindMaterial ::
  "string \<Rightarrow> OBJECT_MATERIAL \<Rightarrow> SceneManager \<Rightarrow> bool \<times> OBJECT_MATERIAL" where
  "FindMaterial tag' material sm =
     (if length (m_objectMaterials sm) = 0 then (False, material)
      else (True, FindMaterial_loop sm tag' 0 False material))"

definition push_back :: "OBJECT_MATERIAL \<Rightarrow> SceneManager \<Rightarrow> SceneManager" where
  "push_back material sm = sm\<lparr>m_objectMaterials := m_objectMaterials sm @ [material]\<rparr>"

definition planeMaterial :: OBJECT_MATERIAL where
  "planeMaterial =
     \<lparr>ambientColor = (0.3, 0.3, 0.25), ambientStrength = 0.3,
      diffuseColor = (0.8, 0.8, 0.8), specularColor = (0.2, 0.2, 0.2),
      shininess = 16.0, tag = ''plane''\<rparr>"

definition cylinderMaterial :: OBJECT_MATERIAL where
  "cylinderMaterial =
     \<lparr>ambientColor = (0.25, 0.25, 0.25), ambientStrength = 0.25,
      diffuseColor = (0.7, 0.7, 0.7), specularColor = (0.3, 0.3, 0.3),
      shininess = 32.0, tag = ''cylinder''\<rparr>"

definition boxMaterial :: OBJECT_MATERIAL where
  "boxMaterial =
     \<lparr>ambientColor = (0.2, 0.15, 0.1), ambientStrength = 0.4,
      diffuseColor = (0.6, 0.4, 0.2), specularColor = (0.4, 0.4, 0.4),
      shininess = 64.0, tag = ''box''\<rparr>"

definition sphereMaterial :: OBJECT_MATERIAL where
  "sphereMaterial =
     \<lparr>ambientColor = (0.3, 0.25, 0.1), ambientStrength = 0.2,
      diffuseColor = (0.8, 0.7, 0.3), specularColor = (0.9, 0.9, 0.7),
      shininess = 128.0, tag = ''sphere''\<rparr>"

definition lampBaseMaterial :: OBJECT_MATERIAL where
  "lampBaseMaterial =
     \<lparr>ambientColor = (0.1, 0.1, 0.1), ambientStrength = 0.3,
      diffuseColor = (0.3, 0.3, 0.3), specularColor = (0.5, 0.5, 0.5),
      shininess = 64.0, tag = ''lampBase''\<rparr>"

definition lampShadeMaterial :: OBJECT_MATERIAL where
  "lampShadeMaterial =
     \<lparr>ambientColor = (0.9, 0.9, 0.8), ambientStrength = 0.4,
      diffuseColor = (0.95, 0.95, 0.9), specularColor = (0.2, 0.2, 0.2),
      shininess = 16.0, tag = ''lampShade''\<rparr>"

definition bedMaterial :: OBJECT_MATERIAL where
  "bedMaterial =
     \<lparr>ambientColor = (0.1, 0.1, 0.3), ambientStrength = 0.3,
      diffuseColor = (0.2, 0.3, 0.8), specularColor = (0.1, 0.1, 0.3),
      shininess = 32.0, tag = ''bed''\<rparr>"

definition pillowMaterial :: OBJECT_MATERIAL where
  "pillowMaterial =
     \<lparr>ambientColor = (0.9, 0.9, 0.9), ambientStrength = 0.4,
      diffuseColor = (1.0, 1.0, 1.0), specularColor = (0.3, 0.3, 0.3),
      shininess = 16.0, tag = ''pillow''\<rparr>"

definition rugMaterial :: OBJECT_MATERIAL where
  "rugMaterial =
     \<lparr>ambientColor = (0.3, 0.1, 0.1), ambientStrength = 0.4,
      diffuseColor = (0.7, 0.2, 0.2), specularColor = (0.1, 0.1, 0.1),
      shininess = 8.0, tag = ''rug''\<rparr>"

definition DefineObjectMaterials :: "SceneManager \<Rightarrow> SceneManager" where
  "DefineObjectMaterials sm =
     foldl (\<lambda>s material. push_back material s) sm
       [planeMaterial, cylinderMaterial, boxMaterial, sphereMaterial, lampBaseMaterial,
        lampShadeMaterial, bedMaterial, pillowMaterial, rugMaterial]"

subsection \<open>Shader manager setters\<close>

definition setBoolValue :: "string \<Rightarrow> bool \<Rightarrow> SceneManager \<Rightarrow> fault + SceneManager" where
  "setBoolValue name b = setValue name (BoolValue b)"

definition setIntValue :: "string \<Rightarrow> int \<Rightarrow> SceneManager \<Rightarrow> fault + SceneManager" where
  "setIntValue name i = setValue name (IntValue i)"

definition setFloatValue :: "string \<Rightarrow> real \<Rightarrow> SceneManager \<Rightarrow> fault + SceneManager" where
  "setFloatValue name f = setValue name (FloatValue f)"

definition setVec2Value :: "string \<Rightarrow> vec2 \<Rightarrow> SceneManager \<Rightarrow> fault + SceneManager" where
  "setVec2Value name v = setValue name (Vec2Value v)"

definition setVec3Value :: "string \<Rightarrow> vec3 \<Rightarrow> SceneManager \<Rightarrow> fault + SceneManager" where
  "setVec3Value name v = setValue name (Vec3Value v)"

definition setVec4Value :: "string \<Rightarrow> vec4 \<Rightarrow> SceneManager \<Rightarrow> fault + SceneManager" where
  "setVec4Value name v = setValue name (Vec4Value v)"

definition setMat4Value :: "string \<Rightarrow> mat4 \<Rightarrow> SceneManager \<Rightarrow> fault + SceneManager" where
  "setMat4Value name m = setValue name (Mat4Value m)"

definition setSampler2DValue ::
  "string \<Rightarrow> int \<Rightarrow> SceneManager \<Rightarrow> fault + SceneManager" where
  "setSampler2DValue name slot = setValue name (Sampler2DValue slot)"

subsection \<open>The GLM functions the transform uses\<close>

text \<open>
  GLM is an external library. Its functions are written here as its sources define them,
  over the reals: \<^verbatim>\<open>glm::radians\<close>, the products \<^verbatim>\<open>mat4 * vec4\<close> and \<^verbatim>\<open>mat4 * mat4\<close>,
  and \<^verbatim>\<open>glm::scale\<close>, \<^verbatim>\<open>glm::rotate\<close>, \<^verbatim>\<open>glm::translate\<close>, whose one-vector forms of
  \<^verbatim>\<open>glm/gtx/transform.hpp\<close> apply the general form to the identity matrix.
\<close>

definition glm_radians :: "real \<Rightarrow> real" where
  "glm_radians degrees = degrees * (pi / 180)"

fun vec4_times :: "vec4 \<Rightarrow> real \<Rightarrow> vec4" where
  "vec4_times (a, b, c, d) s = (a * s, b * s, c * s, d * s)"

fun vec4_plus :: "vec4 \<Rightarrow> vec4 \<Rightarrow> vec4" where
  "vec4_plus (a, b, c, d) (a', b', c', d') = (a + a', b + b', c + c', d + d')"

fun mat4_times_vec4 :: "mat4 \<Rightarrow> vec4 \<Rightarrow> vec4" where
  "mat4_times_vec4 (m0, m1, m2, m3) (a, b, c, d) =
     vec4_plus (vec4_plus (vec4_times m0 a) (vec4_times m1 b))
               (vec4_plus (vec4_times m2 c) (vec4_times m3 d))"

text \<open>One column of \<^verbatim>\<open>m1 * m2\<close>: the columns of \<open>m1\<close> weighted by a column of \<open>m2\<close>.\<close>

fun mat4_times_column :: "mat4 \<Rightarrow> vec4 \<Rightarrow> vec4" where
  "mat4_times_column (a0, a1, a2, a3) (b0, b1, b2, b3) =
     vec4_plus (vec4_plus (vec4_plus (vec4_times a0 b0) (vec4_times a1 b1))
                          (vec4_times a2 b2)) (vec4_times a3 b3)"

fun mat4_times :: "mat4 \<Rightarrow> mat4 \<Rightarrow> mat4" where
  "mat4_times m1 (b0, b1, b2, b3) =
     (mat4_times_column m1 b0, mat4_times_column m1 b1,
      mat4_times_column m1 b2, mat4_times_column m1 b3)"

definition mat4_identity :: mat4 where
  "mat4_identity = ((1, 0, 0, 0), (0, 1, 0, 0), (0, 0, 1, 0), (0, 0, 0, 1))"

fun glm_normalize :: "vec3 \<Rightarrow> vec3" where
  "glm_normalize (a, b, c) =
     (let inversesqrt = 1 / sqrt (a * a + b * b + c * c)
      in (a * inversesqrt, b * inversesqrt, c * inversesqrt))"

fun glm_scale_m :: "mat4 \<Rightarrow> vec3 \<Rightarrow> mat4" where
  "glm_scale_m (m0, m1, m2, m3) (a, b, c) =
     (vec4_times m0 a, vec4_times m1 b, vec4_times m2 c, m3)"

fun glm_translate_m :: "mat4 \<Rightarrow> vec3 \<Rightarrow> mat4" where
  "glm_translate_m (m0, m1, m2, m3) (a, b, c) =
     (m0, m1, m2,
      vec4_plus (vec4_plus (vec4_plus (vec4_times m0 a) (vec4_times m1 b))
                           (vec4_times m2 c)) m3)"

fun glm_rotate_m :: "mat4 \<Rightarrow> real \<Rightarrow> vec3 \<Rightarrow> mat4" where
  "glm_rotate_m (m0, m1, m2, m3) angle v =
     (let c = cos angle;
          s = sin angle;
          (ax, ay, az) = glm_normalize v;
          (tx, ty, tz) = ((1 - c) * ax, (1 - c) * ay, (1 - c) * az);
          r00 = c + tx * ax;
          r01 = tx * ay + s * az;
          r02 = tx * az - s * ay;
          r10 = ty * ax - s * az;
          r11 = c + ty * ay;
          r12 = ty * az + s * ax;
          r20 = tz * ax + s * ay;
          r21 = tz * ay - s * ax;
          r22 = c + tz * az
      in (vec4_plus (vec4_plus (vec4_times m0 r00) (vec4_times m1 r01)) (vec4_times m2 r02),
          vec4_plus (vec4_plus (vec4_times m0 r10) (vec4_times m1 r11)) (vec4_times m2 r12),
          vec4_plus (vec4_plus (vec4_times m0 r20) (vec4_times m1 r21)) (vec4_times m2 r22),
          m3))"

definition glm_scale :: "vec3 \<Rightarrow> mat4" where
  "glm_scale v = glm_scale_m mat4_identity v"

definition glm_rotate :: "real \<Rightarrow> vec3 \<Rightarrow> mat4" where
  "glm_rotate angle v = glm_rotate_m mat4_identity angle v"

definition glm_translate :: "vec3 \<Rightarrow> mat4" where
  "glm_translate v = glm_translate_m mat4_identity v"

text \<open>
  The point maps the model matrix is meant to compose, each written out on coordinates:
  scaling, the rotations by an angle in radians about the X, Y and Z axes, translation.
\<close>

fun scale_point :: "vec3 \<Rightarrow> vec3 \<Rightarrow> vec3" where
  "scale_point (sx, sy, sz) (a, b, c) = (sx * a, sy * b, sz * c)"

fun rotate_x_point :: "real \<Rightarrow> vec3 \<Rightarrow> vec3" where
  "rotate_x_point t (a, b, c) = (a, b * cos t - c * sin t, b * sin t + c * cos t)"

fun rotate_y_point :: "real \<Rightarrow> vec3 \<Rightarrow> vec3" where
  "rotate_y_point t (a, b, c) = (a * cos t + c * sin t, b, c * cos t - a * sin t)"

fun rotate_z_point :: "real \<Rightarrow> vec3 \<Rightarrow> vec3" where
  "rotate_z_point t (a, b, c) = (a * cos t - b * sin t, a * sin t + b * cos t, c)"

fun translate_point :: "vec3 \<Rightarrow> vec3 \<Rightarrow> vec3" where
  "translate_point (tx, ty, tz) (a, b, c) = (a + tx, b + ty, c + tz)"

text \<open>A point as the homogeneous column vector a model matrix is applied to.\<close>

fun homogeneous :: "vec3 \<Rightarrow> vec4" where
  "homogeneous (a, b, c) = (a, b, c, 1)"

subsection \<open>Shader binding\<close>

definition SetTransformations ::
  "vec3 \<Rightarrow> real \<Rightarrow> real \<Rightarrow> real \<Rightarrow> vec3 \<Rightarrow> SceneManager \<Rightarrow> fault + SceneManager" where
  "SetTransformations scaleXYZ XrotationDegrees YrotationDegrees ZrotationDegrees
       positionXYZ sm =
     (let scale = glm_scale scaleXYZ;
          rotationX = glm_rotate (glm_radians XrotationDegrees) (1, 0, 0);
          rotationY = glm_rotate (glm_radians YrotationDegrees) (0, 1, 0);
          rotationZ = glm_rotate (glm_radians ZrotationDegrees) (0, 0, 1);
          translation = glm_translate positionXYZ;
          modelView =
            mat4_times (mat4_times (mat4_times (mat4_times translation rotationZ)
                                               rotationY) rotationX) scale
      in if NULL \<noteq> m_pShaderManager sm
         then setMat4Value g_ModelName modelView sm
         else Inr sm)"

text \<open>\<^verbatim>\<open>setIntValue\<close> receives \<^verbatim>\<open>false\<close> and \<^verbatim>\<open>true\<close> converted to 0 and 1.\<close>

definition SetShaderColor ::
  "real \<Rightarrow> real \<Rightarrow> real \<Rightarrow> real \<Rightarrow> SceneManager \<Rightarrow> fault + SceneManager" where
  "SetShaderColor redColorValue greenColorValue blueColorValue alphaValue sm =
     (let currentColor = (redColorValue, greenColorValue, blueColorValue, alphaValue)
      in if NULL \<noteq> m_pShaderManager sm
         then run [setIntValue g_UseTextureName 0,
                   setVec4Value g_ColorValueName currentColor] sm
         else Inr sm)"

definition SetShaderTexture :: "string \<Rightarrow> SceneManager \<Rightarrow> fault + SceneManager" where
  "SetShaderTexture textureTag sm =
     (if NULL \<noteq> m_pShaderManager sm then
        (case setIntValue g_UseTextureName 1 sm of
           Inl e \<Rightarrow> Inl e
         | Inr sm1 \<Rightarrow>
             (case FindTextureSlot textureTag sm1 of
                Inl e \<Rightarrow> Inl e
              | Inr textureID \<Rightarrow> setSampler2DValue g_TextureValueName textureID sm1))
      else Inr sm)"

definition SetTextureUVScale :: "real \<Rightarrow> real \<Rightarrow> SceneManager \<Rightarrow> fault + SceneManager" where
  "SetTextureUVScale u v sm =
     (if NULL \<noteq> m_pShaderManager sm
      then setVec2Value ''UVscale'' (u, v) sm
      else Inr sm)"

text \<open>
  \<^verbatim>\<open>SetShaderMaterial\<close> declares its local \<^verbatim>\<open>OBJECT_MATERIAL material\<close> without
  initialising it and hands it to \<^verbatim>\<open>FindMaterial\<close> as the output parameter. What the
  local holds before the call is the parameter \<open>uninitialized\<close>.
\<close>

definition SetShaderMaterial ::
  "string \<Rightarrow> OBJECT_MATERIAL \<Rightarrow> SceneManager \<Rightarrow> fault + SceneManager" where
  "SetShaderMaterial materialTag uninitialized sm =
     (if length (m_objectMaterials sm) > 0 then
        (let (bReturn, material) = FindMaterial materialTag uninitialized sm
         in if bReturn = True then
              run [setVec3Value ''material.ambientColor'' (ambientColor material),
                   setFloatValue ''material.ambientStrength'' (ambientStrength material),
                   setVec3Value ''material.diffuseColor'' (diffuseColor material),
                   setVec3Value ''material.specularColor'' (specularColor material),
                   setFloatValue ''material.shininess'' (shininess material)] sm
            else Inr sm)
      else Inr sm)"

subsection \<open>Lighting\<close>

definition digit_char :: "nat \<Rightarrow> char" where
  "digit_char d = ''0123456789'' ! d"

function to_string_nat :: "nat \<Rightarrow> string" where
  "to_string_nat n =
     (if n < 10 then [digit_char n]
      else to_string_nat (n div 10) @ [digit_char (n mod 10)])"
  by pat_completeness auto
termination
  by (relation "measure id") auto

definition to_string :: "int \<Rightarrow> string" where
  "to_string i = (if i < 0 then CHR ''-'' # to_string_nat (nat (- i)) else to_string_nat (nat i))"

function SetupSceneLights_loop :: "int \<Rightarrow> SceneManager \<Rightarrow> fault + SceneManager" where
  "SetupSceneLights_loop i sm =
     (if i < 5 then
        (case setBoolValue (''pointLights['' @ to_string i @ ''].bActive'') False sm of
           Inl e \<Rightarrow> Inl e
         | Inr sm' \<Rightarrow> SetupSceneLights_loop (i + 1) sm')
      else Inr sm)"
  by pat_completeness auto
termination
  by (relation "measure (\<lambda>(i, sm). nat (5 - i))") auto

definition SetupSceneLights :: "SceneManager \<Rightarrow> fault + SceneManager" where
  "SetupSceneLights =
     run [setBoolValue g_UseLightingName True,
          setVec3Value ''viewPosition'' (4.0, 1.0, 4.0),
          setVec3Value ''pointLights[0].ambient'' (0.1, 0.1, 0.3),
          setVec3Value ''pointLights[0].diffuse'' (0.2, 0.2, 0.8),
          setVec3Value ''pointLights[0].specular'' (0.3, 0.3, 1.0),
          setVec3Value ''pointLights[0].specular'' (0.3, 0.3, 0.3),
          setBoolValue ''pointLights[0].bActive'' True,
          setVec3Value ''pointLights[1].position'' (- 77.0, 10.0, - 27.0),
          setVec3Value ''pointLights[1].ambient'' (0.1, 0.1, 0.08),
          setVec3Value ''pointLights[1].diffuse'' (0.5, 0.5, 0.4),
          setVec3Value ''pointLights[1].specular'' (0.3, 0.3, 0.3),
          setBoolValue ''pointLights[1].bActive'' True,
          SetupSceneLights_loop 2,
          setBoolValue ''spotLight.bActive'' False]"

subsection \<open>Scene preparation\<close>

definition LoadMesh :: "mesh \<Rightarrow> SceneManager \<Rightarrow> fault + SceneManager" where
  "LoadMesh m sm = Inr (sm\<lparr>m_basicMeshes := m # m_basicMeshes sm\<rparr>)"

definition PrepareScene ::
  "(string \<Rightarrow> image option) \<Rightarrow> SceneManager \<Rightarrow> fault + SceneManager" where
  "PrepareScene stbi_load =
     run [SetupSceneLights,
          (\<lambda>sm. Inr (DefineObjectMaterials sm)),
          LoadMesh PlaneMesh,
          LoadMesh BoxMesh,
          LoadMesh SphereMesh,
          LoadMesh CylinderMesh,
          LoadMesh ConeMesh,
          CreateGLTexture_ignored stbi_load ''textures/oakd.jpg'' ''oakd'',
          CreateGLTexture_ignored stbi_load ''textures/oakl.jpg'' ''oakl'',
          CreateGLTexture_ignored stbi_load ''textures/brass.jpg'' ''brass'',
          CreateGLTexture_ignored stbi_load ''textures/carpet.jpg'' ''carpet'',
          CreateGLTexture_ignored stbi_load ''textures/sheet.jpg'' ''sheet'']"

subsection \<open>Example inputs\<close>

text \<open>
  Three decoders: one for which every file is a 512 by 512 RGB image, one for which every
  file has a single channel, and one for which no file decodes.
\<close>

definition stbi_load_rgb :: "string \<Rightarrow> image option" where
  "stbi_load_rgb filename = Some \<lparr>width = 512, height = 512, colorChannels = 3\<rparr>"

definition stbi_load_none :: "string \<Rightarrow> image option" where
  "stbi_load_none filename = None"

definition stbi_load_grey :: "string \<Rightarrow> image option" where
  "stbi_load_grey filename = Some \<lparr>width = 512, height = 512, colorChannels = 1\<rparr>"

text \<open>Two textures registered under the one tag \<open>oak\<close>.\<close>

definition two_oak_textures :: SceneManager where
  "two_oak_textures =
     projr (run [CreateGLTexture_ignored stbi_load_rgb ''textures/oakd.jpg'' ''oak'',
                 CreateGLTexture_ignored stbi_load_rgb ''textures/oakl.jpg'' ''oak'']
              (SceneManager_new ShaderPtr))"

text \<open>Sixteen registrations in a row on a new scene manager.\<close>

definition sixteen_textures :: SceneManager where
  "sixteen_textures =
     projr (run (replicate 16 (CreateGLTexture_ignored stbi_load_rgb ''textures/oakd.jpg'' ''oakd''))
              (SceneManager_new ShaderPtr))"

text \<open>A new scene manager after \<^verbatim>\<open>SetupSceneLights\<close>.\<close>

definition lit_scene :: SceneManager where
  "lit_scene = projr (SetupSceneLights (SceneManager_new ShaderPtr))"

text \<open>
  A new scene manager after \<^verbatim>\<open>DefineObjectMaterials\<close>, and the same after
  \<^verbatim>\<open>SetShaderMaterial("plane")\<close>, called with an all-zero local.
\<close>

definition zero_material :: OBJECT_MATERIAL where
  "zero_material =
     \<lparr>ambientColor = (0, 0, 0), ambientStrength = 0, diffuseColor = (0, 0, 0),
      specularColor = (0, 0, 0), shininess = 0, tag = ''''\<rparr>"

definition defined_materials :: SceneManager where
  "defined_materials = DefineObjectMaterials (SceneManager_new ShaderPtr)"

definition plane_bound :: SceneManager where
  "plane_bound = projr (SetShaderMaterial ''plane'' zero_material defined_materials)"

text \<open>
  A new scene manager after \<^verbatim>\<open>PrepareScene\<close>, and one after \<^verbatim>\<open>LoadSceneTextures\<close>,
  each with every file decoding.
\<close>

definition prepared_scene :: SceneManager where
  "prepared_scene = projr (PrepareScene stbi_load_rgb (SceneManager_new ShaderPtr))"

definition loaded_textures_scene :: SceneManager where
  "loaded_textures_scene = projr (LoadSceneTextures stbi_load_rgb (SceneManager_new ShaderPtr))"

subsection \<open>Views of the state\<close>

text \<open>The tags of the defined materials, in definition order.\<close>

definition material_tags :: "SceneManager \<Rightarrow> string list" where
  "material_tags sm = map OBJECT_MATERIAL.tag (m_objectMaterials sm)"

text \<open>
  The handles of the registered slots in slot order, and the textures bound on the
  texture units of the same indices. \<^verbatim>\<open>BindGLTextures\<close> is what makes the two agree.
\<close>

definition slot_handles :: "SceneManager \<Rightarrow> 32 word list" where
  "slot_handles sm = map ID (take (nat (m_loadedTextures sm)) (m_textureIDs sm))"

definition unit_bindings :: "SceneManager \<Rightarrow> 32 word list" where
  "unit_bindings sm = map (texture_binding_2d (gl sm)) [0..<nat (m_loadedTextures sm)]"

subsection \<open>The composition the spec describes\<close>

text \<open>
  The spec's words for the transform: scale first, then rotate about X, then about Y, then
  about Z, then translate, with the angles given in degrees; as a map on points, and as the
  matrix product Translation \<open>\<cdot>\<close> RotationZ \<open>\<cdot>\<close> RotationY \<open>\<cdot>\<close> RotationX \<open>\<cdot>\<close> Scale.
\<close>

definition compose_spec :: "vec3 \<Rightarrow> real \<Rightarrow> real \<Rightarrow> real \<Rightarrow> vec3 \<Rightarrow> vec3 \<Rightarrow> vec3" where
  "compose_spec scaleXYZ xDegrees yDegrees zDegrees positionXYZ p =
     translate_point positionXYZ
       (rotate_z_point (zDegrees * pi / 180)
         (rotate_y_point (yDegrees * pi / 180)
           (rotate_x_point (xDegrees * pi / 180)
             (scale_point scaleXYZ p))))"

definition compose_matrix_spec :: "vec3 \<Rightarrow> real \<Rightarrow> real \<Rightarrow> real \<Rightarrow> vec3 \<Rightarrow> mat4" where
  "compose_matrix_spec scaleXYZ xDegrees yDegrees zDegrees positionXYZ =
     mat4_times (glm_translate positionXYZ)
       (mat4_times (glm_rotate (zDegrees * pi / 180) (0, 0, 1))
         (mat4_times (glm_rotate (yDegrees * pi / 180) (0, 1, 0))
           (mat4_times (glm_rotate (xDegrees * pi / 180) (1, 0, 0))
             (glm_scale scaleXYZ))))"

section \<open>Properties\<close>

subsection \<open>Texture lookup\<close>

declare FindTextureID_loop.simps [simp del] FindTextureSlot_loop.simps [simp del]

lemma FindTextureSlot_loop_done: "FindTextureSlot_loop sm t index True r = Inr r"
  by (subst FindTextureSlot_loop.simps) simp

lemma FindTextureID_loop_done: "FindTextureID_loop sm t index True r = Inr r"
  by (subst FindTextureID_loop.simps) simp

lemma FindTextureSlot_loop_first:
  assumes "nat (int k - index) = n" "0 \<le> index" "index \<le> int k"
    and "int k < m_loadedTextures sm" "k < length (m_textureIDs sm)"
    and "TEXTURE_INFO.tag (m_textureIDs sm ! k) = t"
    and "\<forall>i. index \<le> int i \<and> i < k \<longrightarrow> TEXTURE_INFO.tag (m_textureIDs sm ! i) \<noteq> t"
  shows "FindTextureSlot_loop sm t index False r = Inr (int k)"
  using assms
proof (induction n arbitrary: index)
  case 0
  then have "index = int k" by simp
  with 0 show ?case
    by (subst FindTextureSlot_loop.simps) (simp add: texture_at_def FindTextureSlot_loop_done)
next
  case (Suc n)
  then have lt: "index < int k" by linarith
  with Suc.prems have ne: "TEXTURE_INFO.tag (m_textureIDs sm ! nat index) \<noteq> t"
    by (metis int_nat_eq nat_less_iff order_refl zless_nat_conj)
  have "FindTextureSlot_loop sm t (index + 1) False r = Inr (int k)"
    using Suc.prems lt by (intro Suc.IH) auto
  with Suc.prems lt ne show ?case
    by (subst FindTextureSlot_loop.simps) (simp add: texture_at_def)
qed

lemma FindTextureSlot_loop_miss:
  assumes "nat (m_loadedTextures sm - index) = n" "0 \<le> index"
    and "m_loadedTextures sm \<le> int (length (m_textureIDs sm))"
    and "\<forall>i. index \<le> int i \<and> int i < m_loadedTextures sm \<longrightarrow> TEXTURE_INFO.tag (m_textureIDs sm ! i) \<noteq> t"
  shows "FindTextureSlot_loop sm t index False r = Inr r"
  using assms
proof (induction n arbitrary: index)
  case 0
  then show ?case
    by (subst FindTextureSlot_loop.simps) simp
next
  case (Suc n)
  then have lt: "index < m_loadedTextures sm" by linarith
  with Suc.prems have ne: "TEXTURE_INFO.tag (m_textureIDs sm ! nat index) \<noteq> t"
    by (metis int_nat_eq order_refl)
  have "FindTextureSlot_loop sm t (index + 1) False r = Inr r"
    using Suc.prems lt by (intro Suc.IH) auto
  with Suc.prems lt ne show ?case
    by (subst FindTextureSlot_loop.simps) (simp add: texture_at_def)
qed

lemma FindTextureID_loop_miss:
  assumes "nat (m_loadedTextures sm - index) = n" "0 \<le> index"
    and "m_loadedTextures sm \<le> int (length (m_textureIDs sm))"
    and "\<forall>i. index \<le> int i \<and> int i < m_loadedTextures sm \<longrightarrow> TEXTURE_INFO.tag (m_textureIDs sm ! i) \<noteq> t"
  shows "FindTextureID_loop sm t index False r = Inr r"
  using assms
proof (induction n arbitrary: index)
  case 0
  then show ?case
    by (subst FindTextureID_loop.simps) simp
next
  case (Suc n)
  then have lt: "index < m_loadedTextures sm" by linarith
  with Suc.prems have ne: "TEXTURE_INFO.tag (m_textureIDs sm ! nat index) \<noteq> t"
    by (metis int_nat_eq order_refl)
  have "FindTextureID_loop sm t (index + 1) False r = Inr r"
    using Suc.prems lt by (intro Suc.IH) auto
  with Suc.prems lt ne show ?case
    by (subst FindTextureID_loop.simps) (simp add: texture_at_def)
qed

lemma registered_tags_length:
  "length (registered_tags sm) = min (length (m_textureIDs sm)) (nat (m_loadedTextures sm))"
  by (simp add: registered_tags_def)

lemma registered_tags_nth:
  "i < length (registered_tags sm) \<Longrightarrow>
     registered_tags sm ! i = TEXTURE_INFO.tag (m_textureIDs sm ! i)"
  by (simp add: registered_tags_def)

text \<open>
  Claim C8. When no registered slot carries the tag, \<^verbatim>\<open>FindTextureID\<close> and
  \<^verbatim>\<open>FindTextureSlot\<close> both return the sentinel \<open>-1\<close>. The registered slots are
  those below \<open>m_loadedTextures\<close>, which lie inside the array.
\<close>

theorem find_texture_miss_returns_sentinel:
  assumes "m_loadedTextures sm \<le> int (length (m_textureIDs sm))"
    and "t \<notin> set (registered_tags sm)"
  shows "FindTextureID t sm = Inr (- 1) \<and> FindTextureSlot t sm = Inr (- 1)"
proof -
  have "\<forall>i. 0 \<le> int i \<and> int i < m_loadedTextures sm \<longrightarrow>
          TEXTURE_INFO.tag (m_textureIDs sm ! i) \<noteq> t"
  proof (intro allI impI)
    fix i
    assume "0 \<le> int i \<and> int i < m_loadedTextures sm"
    with assms(1) have i: "i < length (registered_tags sm)"
      by (simp add: registered_tags_length)
    then have "registered_tags sm ! i \<in> set (registered_tags sm)"
      by (rule nth_mem)
    with i assms(2) show "TEXTURE_INFO.tag (m_textureIDs sm ! i) \<noteq> t"
      by (auto simp: registered_tags_nth)
  qed
  with assms(1) show ?thesis
    by (simp add: FindTextureID_def FindTextureSlot_def
        FindTextureID_loop_miss [OF refl] FindTextureSlot_loop_miss [OF refl])
qed

lemma two_oak_textures_eval:
  "m_loadedTextures two_oak_textures = 2"
  "m_textureIDs two_oak_textures =
     \<lparr>ID = 1, tag = ''oak''\<rparr> # \<lparr>ID = 2, tag = ''oak''\<rparr> # replicate 14 \<lparr>ID = 0, tag = []\<rparr>"
  by (simp_all add: two_oak_textures_def CreateGLTexture_ignored_def CreateGLTexture_def
      stbi_load_rgb_def SceneManager_new_def texture_capacity_def initial_gl_def
      cout_def glGenTextures_def glBindTexture_def Let_def eval_nat_numeral)

lemma two_oak_textures_tags: "registered_tags two_oak_textures = [''oak'', ''oak'']"
  by (simp add: registered_tags_def two_oak_textures_eval eval_nat_numeral)

theorem find_texture_miss_returns_sentinel_witness:
  "m_loadedTextures two_oak_textures \<le> int (length (m_textureIDs two_oak_textures)) \<and>
   ''brass'' \<notin> set (registered_tags two_oak_textures) \<and>
   FindTextureID ''brass'' two_oak_textures = Inr (- 1) \<and>
   FindTextureSlot ''brass'' two_oak_textures = Inr (- 1)"
proof -
  have len: "m_loadedTextures two_oak_textures \<le> int (length (m_textureIDs two_oak_textures))"
    by (simp add: two_oak_textures_eval)
  have miss: "''brass'' \<notin> set (registered_tags two_oak_textures)"
    by (simp add: two_oak_textures_tags)
  from find_texture_miss_returns_sentinel [OF len miss] len miss show ?thesis by simp
qed

text \<open>
  Claim C9. When two registered slots \<open>i < j\<close> carry the same tag, \<^verbatim>\<open>FindTextureSlot\<close>
  returns the index of the first slot with that tag: an index no later than \<open>i\<close>, hence
  never \<open>j\<close>, with no slot of that tag before it.
\<close>

theorem find_texture_slot_first_match:
  assumes "i < j" "j < length (registered_tags sm)"
    and "registered_tags sm ! i = t" "registered_tags sm ! j = t"
  shows "\<exists>k. FindTextureSlot t sm = Inr (int k) \<and> k \<le> i \<and> k \<noteq> j \<and>
             registered_tags sm ! k = t \<and> t \<notin> set (take k (registered_tags sm))"
proof -
  define k where "k = (LEAST k. registered_tags sm ! k = t)"
  have kt: "registered_tags sm ! k = t"
    unfolding k_def using assms(3) by (rule LeastI)
  have ki: "k \<le> i"
    unfolding k_def using assms(3) by (rule Least_le)
  have first: "\<forall>l<k. registered_tags sm ! l \<noteq> t"
    unfolding k_def using not_less_Least by blast
  have klen: "k < length (registered_tags sm)"
    using ki assms(1,2) by simp
  have notin: "t \<notin> set (take k (registered_tags sm))"
    using first klen by (auto simp: in_set_conv_nth)
  have "\<forall>l. 0 \<le> int l \<and> l < k \<longrightarrow> TEXTURE_INFO.tag (m_textureIDs sm ! l) \<noteq> t"
    using first klen registered_tags_nth [of _ sm] by (metis less_trans)
  moreover have "TEXTURE_INFO.tag (m_textureIDs sm ! k) = t"
    using kt klen by (simp add: registered_tags_nth)
  moreover have "int k < m_loadedTextures sm" "k < length (m_textureIDs sm)"
    using klen by (simp_all add: registered_tags_length) linarith
  ultimately have "FindTextureSlot_loop sm t 0 False (- 1) = Inr (int k)"
    by (intro FindTextureSlot_loop_first [OF refl]) auto
  with ki kt notin assms(1) show ?thesis
    by (auto simp: FindTextureSlot_def)
qed

theorem find_texture_slot_first_match_witness:
  "(0::nat) < 1 \<and> 1 < length (registered_tags two_oak_textures) \<and>
   registered_tags two_oak_textures ! 0 = ''oak'' \<and>
   registered_tags two_oak_textures ! 1 = ''oak'' \<and>
   FindTextureSlot ''oak'' two_oak_textures = Inr 0"
proof -
  have h: "(0::nat) < 1" "1 < length (registered_tags two_oak_textures)"
    "registered_tags two_oak_textures ! 0 = ''oak''"
    "registered_tags two_oak_textures ! 1 = ''oak''"
    by (simp_all add: two_oak_textures_tags)
  from find_texture_slot_first_match [OF h] h show ?thesis by auto
qed

subsection \<open>Texture registration\<close>

lemmas gl_calls = cout_def glGenTextures_def glBindTexture_def glActiveTexture_def

text \<open>
  Claim C7. When the file does not decode, or decodes to an image whose channel count is
  neither 3 nor 4, \<^verbatim>\<open>CreateGLTexture\<close> returns false and the slot array and the slot
  count are what they were.
\<close>

theorem CreateGLTexture_failure_keeps_registry:
  assumes "stbi_load filename = None \<or>
           (\<exists>img. stbi_load filename = Some img \<and> colorChannels img \<noteq> 3 \<and> colorChannels img \<noteq> 4)"
  shows "\<exists>sm'. CreateGLTexture stbi_load filename t sm = Inr (False, sm') \<and>
               m_textureIDs sm' = m_textureIDs sm \<and>
               m_loadedTextures sm' = m_loadedTextures sm"
  using assms
  by (auto simp: CreateGLTexture_def gl_calls Let_def)

theorem CreateGLTexture_failure_keeps_registry_witness:
  "(stbi_load_none ''textures/missing.jpg'' = None \<or>
    (\<exists>img. stbi_load_none ''textures/missing.jpg'' = Some img \<and>
           colorChannels img \<noteq> 3 \<and> colorChannels img \<noteq> 4)) \<and>
   (\<exists>sm'. CreateGLTexture stbi_load_none ''textures/missing.jpg'' ''missing'' two_oak_textures
            = Inr (False, sm') \<and>
          m_textureIDs sm' = m_textureIDs two_oak_textures \<and>
          m_loadedTextures sm' = 2) \<and>
   (stbi_load_grey ''textures/grey.png'' = None \<or>
    (\<exists>img. stbi_load_grey ''textures/grey.png'' = Some img \<and>
           colorChannels img \<noteq> 3 \<and> colorChannels img \<noteq> 4)) \<and>
   (\<exists>sm'. CreateGLTexture stbi_load_grey ''textures/grey.png'' ''grey'' two_oak_textures
            = Inr (False, sm') \<and>
          m_textureIDs sm' = m_textureIDs two_oak_textures \<and>
          m_loadedTextures sm' = 2)"
proof -
  have a: "stbi_load_none ''textures/missing.jpg'' = None \<or>
    (\<exists>img. stbi_load_none ''textures/missing.jpg'' = Some img \<and>
           colorChannels img \<noteq> 3 \<and> colorChannels img \<noteq> 4)"
    by (simp add: stbi_load_none_def)
  have b: "stbi_load_grey ''textures/grey.png'' = None \<or>
    (\<exists>img. stbi_load_grey ''textures/grey.png'' = Some img \<and>
           colorChannels img \<noteq> 3 \<and> colorChannels img \<noteq> 4)"
    by (simp add: stbi_load_grey_def)
  from CreateGLTexture_failure_keeps_registry
         [of stbi_load_none "''textures/missing.jpg''" "''missing''" two_oak_textures, OF a]
       CreateGLTexture_failure_keeps_registry
         [of stbi_load_grey "''textures/grey.png''" "''grey''" two_oak_textures, OF b] a b
  show ?thesis
    by (simp add: two_oak_textures_eval(1))
qed

lemma register_rgb_step:
  assumes "0 \<le> m_loadedTextures sm" "m_loadedTextures sm < int (length (m_textureIDs sm))"
  shows "\<exists>sm'. CreateGLTexture_ignored stbi_load_rgb filename t sm = Inr sm' \<and>
               m_loadedTextures sm' = m_loadedTextures sm + 1 \<and>
               length (m_textureIDs sm') = length (m_textureIDs sm)"
  using assms
  by (simp add: CreateGLTexture_ignored_def CreateGLTexture_def stbi_load_rgb_def gl_calls
      Let_def)

lemma register_rgb_many:
  assumes "0 \<le> m_loadedTextures sm"
    and "m_loadedTextures sm + int n \<le> int (length (m_textureIDs sm))"
  shows "\<exists>sm'. run (replicate n (CreateGLTexture_ignored stbi_load_rgb filename t)) sm = Inr sm' \<and>
               m_loadedTextures sm' = m_loadedTextures sm + int n \<and>
               length (m_textureIDs sm') = length (m_textureIDs sm)"
  using assms
proof (induction n arbitrary: sm)
  case 0
  then show ?case by simp
next
  case (Suc n)
  from Suc.prems obtain sm1 where
    s1: "CreateGLTexture_ignored stbi_load_rgb filename t sm = Inr sm1"
      "m_loadedTextures sm1 = m_loadedTextures sm + 1"
      "length (m_textureIDs sm1) = length (m_textureIDs sm)"
    using register_rgb_step [of sm filename t] by auto
  from Suc.prems s1 obtain sm' where
    "run (replicate n (CreateGLTexture_ignored stbi_load_rgb filename t)) sm1 = Inr sm'"
    "m_loadedTextures sm' = m_loadedTextures sm1 + int n"
    "length (m_textureIDs sm') = length (m_textureIDs sm1)"
    using Suc.IH [of sm1] by auto
  with s1 show ?case by simp
qed

lemma sixteen_textures_eval:
  "run (replicate 16 (CreateGLTexture_ignored stbi_load_rgb ''textures/oakd.jpg'' ''oakd''))
       (SceneManager_new ShaderPtr) = Inr sixteen_textures"
  "m_loadedTextures sixteen_textures = 16"
  "length (m_textureIDs sixteen_textures) = 16"
  using register_rgb_many [of "SceneManager_new ShaderPtr" 16 "''textures/oakd.jpg''" "''oakd''"]
  by (auto simp: sixteen_textures_def SceneManager_new_def texture_capacity_def)

text \<open>
  Claim C4, as stated, fails: \<^verbatim>\<open>CreateGLTexture\<close> has no capacity check. After sixteen
  successful registrations, one more call with an image that decodes does not return
  false: it stores at index 16, outside the array.
\<close>

theorem CreateGLTexture_overflow_counterexample:
  "run (replicate 16 (CreateGLTexture_ignored stbi_load_rgb ''textures/oakd.jpg'' ''oakd''))
       (SceneManager_new ShaderPtr) = Inr sixteen_textures \<and>
   m_loadedTextures sixteen_textures = 16 \<and>
   length (m_textureIDs sixteen_textures) = texture_capacity \<and>
   CreateGLTexture stbi_load_rgb ''textures/oakl.jpg'' ''oakl'' sixteen_textures
     = Inl (ArrayIndexOutOfBounds 16)"
  by (simp add: sixteen_textures_eval CreateGLTexture_def stbi_load_rgb_def gl_calls Let_def
      texture_capacity_def)

text \<open>
  Claim C4, amended. While fewer than sixteen slots are registered, \<^verbatim>\<open>CreateGLTexture\<close>
  never writes outside the array: either it returns false and leaves the registry as it
  was, or it returns true having stored the new slot at index \<open>m_loadedTextures\<close> and
  incremented the count, which stays within the capacity.
\<close>

theorem CreateGLTexture_within_capacity:
  assumes "length (m_textureIDs sm) = texture_capacity"
    and "0 \<le> m_loadedTextures sm" "m_loadedTextures sm < int texture_capacity"
  shows "(\<exists>sm'. CreateGLTexture stbi_load filename t sm = Inr (False, sm') \<and>
                m_textureIDs sm' = m_textureIDs sm \<and>
                m_loadedTextures sm' = m_loadedTextures sm) \<or>
         (\<exists>sm'. CreateGLTexture stbi_load filename t sm = Inr (True, sm') \<and>
                m_textureIDs sm' =
                  (m_textureIDs sm)[nat (m_loadedTextures sm) :=
                     \<lparr>ID = next_texture_name (gl sm), tag = t\<rparr>] \<and>
                length (m_textureIDs sm') = texture_capacity \<and>
                m_loadedTextures sm' = m_loadedTextures sm + 1 \<and>
                m_loadedTextures sm' \<le> int texture_capacity)"
  using assms
  by (auto simp: CreateGLTexture_def gl_calls Let_def split: option.splits)

theorem CreateGLTexture_within_capacity_witness:
  "length (m_textureIDs two_oak_textures) = texture_capacity \<and>
   0 \<le> m_loadedTextures two_oak_textures \<and>
   m_loadedTextures two_oak_textures < int texture_capacity \<and>
   (\<exists>sm'. CreateGLTexture stbi_load_rgb ''textures/brass.jpg'' ''brass'' two_oak_textures
            = Inr (True, sm') \<and>
          m_loadedTextures sm' = 3 \<and> length (m_textureIDs sm') = texture_capacity)"
proof -
  have h: "length (m_textureIDs two_oak_textures) = texture_capacity"
    "0 \<le> m_loadedTextures two_oak_textures"
    "m_loadedTextures two_oak_textures < int texture_capacity"
    by (simp_all add: two_oak_textures_eval texture_capacity_def)
  have "\<not> (\<exists>sm'. CreateGLTexture stbi_load_rgb ''textures/brass.jpg'' ''brass'' two_oak_textures
            = Inr (False, sm'))"
    by (simp add: CreateGLTexture_def stbi_load_rgb_def gl_calls Let_def two_oak_textures_eval)
  with CreateGLTexture_within_capacity [OF h, of stbi_load_rgb "''textures/brass.jpg''" "''brass''"] h
  show ?thesis
    by (auto simp: two_oak_textures_eval)
qed

subsection \<open>Binding without a shader manager\<close>

text \<open>
  Claim C10. With a null shader manager pointer, \<^verbatim>\<open>SetTransformations\<close>,
  \<^verbatim>\<open>SetShaderColor\<close>, \<^verbatim>\<open>SetShaderTexture\<close> and \<^verbatim>\<open>SetTextureUVScale\<close> return normally
  and leave the whole state, the uniform trace included, as it was.
\<close>

theorem null_shader_manager_no_upload:
  assumes "m_pShaderManager sm = NULL"
  shows "SetTransformations scaleXYZ xr yr zr positionXYZ sm = Inr sm \<and>
         SetShaderColor r g b a sm = Inr sm \<and>
         SetShaderTexture textureTag sm = Inr sm \<and>
         SetTextureUVScale u v sm = Inr sm"
  using assms
  by (simp add: SetTransformations_def SetShaderColor_def SetShaderTexture_def
      SetTextureUVScale_def Let_def)

theorem null_shader_manager_no_upload_witness:
  "m_pShaderManager (SceneManager_new NULL) = NULL \<and>
   SetTransformations (1, 1, 1) 90 0 0 (0, 2, 0) (SceneManager_new NULL)
     = Inr (SceneManager_new NULL) \<and>
   SetShaderColor 1 0 0 1 (SceneManager_new NULL) = Inr (SceneManager_new NULL) \<and>
   SetShaderTexture ''oakd'' (SceneManager_new NULL) = Inr (SceneManager_new NULL) \<and>
   SetTextureUVScale 2 2 (SceneManager_new NULL) = Inr (SceneManager_new NULL) \<and>
   uniforms (SceneManager_new NULL) = []"
proof -
  have h: "m_pShaderManager (SceneManager_new NULL) = NULL"
    by (simp add: SceneManager_new_def)
  from null_shader_manager_no_upload [OF h] h show ?thesis
    by (simp add: SceneManager_new_def)
qed

subsection \<open>Lighting\<close>

lemma to_string_digits: "to_string 2 = ''2''" "to_string 3 = ''3''" "to_string 4 = ''4''"
  by (simp_all add: to_string_def digit_char_def)

lemma SetupSceneLights_loop_eval:
  assumes "m_pShaderManager sm = ShaderPtr"
  shows "SetupSceneLights_loop 2 sm =
     Inr (sm\<lparr>uniforms :=
       [(''pointLights[4].bActive'', BoolValue False),
        (''pointLights[3].bActive'', BoolValue False),
        (''pointLights[2].bActive'', BoolValue False)] @ uniforms sm\<rparr>)"
  using assms by (simp add: setBoolValue_def setValue_def to_string_digits)

lemma SetupSceneLights_eval:
  assumes "m_pShaderManager sm = ShaderPtr"
  shows "SetupSceneLights sm =
     Inr (sm\<lparr>uniforms :=
       [(''spotLight.bActive'', BoolValue False),
        (''pointLights[4].bActive'', BoolValue False),
        (''pointLights[3].bActive'', BoolValue False),
        (''pointLights[2].bActive'', BoolValue False),
        (''pointLights[1].bActive'', BoolValue True),
        (''pointLights[1].specular'', Vec3Value (0.3, 0.3, 0.3)),
        (''pointLights[1].diffuse'', Vec3Value (0.5, 0.5, 0.4)),
        (''pointLights[1].ambient'', Vec3Value (0.1, 0.1, 0.08)),
        (''pointLights[1].position'', Vec3Value (- 77.0, 10.0, - 27.0)),
        (''pointLights[0].bActive'', BoolValue True),
        (''pointLights[0].specular'', Vec3Value (0.3, 0.3, 0.3)),
        (''pointLights[0].specular'', Vec3Value (0.3, 0.3, 1.0)),
        (''pointLights[0].diffuse'', Vec3Value (0.2, 0.2, 0.8)),
        (''pointLights[0].ambient'', Vec3Value (0.1, 0.1, 0.3)),
        (''viewPosition'', Vec3Value (4.0, 1.0, 4.0)),
        (''bUseLighting'', BoolValue True)] @ uniforms sm\<rparr>)"
  using assms
  by (simp add: SetupSceneLights_def setBoolValue_def setVec3Value_def setValue_def
      to_string_digits g_UseLightingName_def)

lemma lit_scene_eval:
  "SetupSceneLights (SceneManager_new ShaderPtr) = Inr lit_scene"
  "uniform lit_scene ''pointLights[0].position'' = None"
  "uniform lit_scene ''pointLights[1].position'' = Some (Vec3Value (- 77.0, 10.0, - 27.0))"
  "uniform lit_scene ''pointLights[0].bActive'' = Some (BoolValue True)"
  "m_pShaderManager (SceneManager_new ShaderPtr) = ShaderPtr"
  by (simp_all add: lit_scene_def SetupSceneLights_eval uniform_def SceneManager_new_def)

text \<open>
  Claim C5, as stated, fails for the position of slot 0: \<^verbatim>\<open>SetupSceneLights\<close> uploads a
  position for point light 1 and none for point light 0.
\<close>

theorem SetupSceneLights_no_position_counterexample:
  "SetupSceneLights (SceneManager_new ShaderPtr) = Inr lit_scene \<and>
   uniform lit_scene ''pointLights[0].bActive'' = Some (BoolValue True) \<and>
   uniform lit_scene ''pointLights[0].position'' = None \<and>
   uniform lit_scene ''pointLights[1].position'' = Some (Vec3Value (- 77.0, 10.0, - 27.0))"
  by (simp add: lit_scene_eval)

text \<open>
  Claim C5, amended. With a shader manager present, \<^verbatim>\<open>SetupSceneLights\<close> enables the
  lighting flag, marks point lights 0 and 1 active with the ambient, diffuse and specular
  colours the source gives them (and the position of light 1), and marks point lights 2, 3
  and 4 and the spotlight inactive.
\<close>

theorem SetupSceneLights_uploads:
  assumes "m_pShaderManager sm = ShaderPtr"
  shows "\<exists>sm'. SetupSceneLights sm = Inr sm' \<and>
     uniform sm' g_UseLightingName = Some (BoolValue True) \<and>
     uniform sm' ''pointLights[0].bActive'' = Some (BoolValue True) \<and>
     uniform sm' ''pointLights[0].ambient'' = Some (Vec3Value (0.1, 0.1, 0.3)) \<and>
     uniform sm' ''pointLights[0].diffuse'' = Some (Vec3Value (0.2, 0.2, 0.8)) \<and>
     uniform sm' ''pointLights[0].specular'' = Some (Vec3Value (0.3, 0.3, 0.3)) \<and>
     uniform sm' ''pointLights[1].bActive'' = Some (BoolValue True) \<and>
     uniform sm' ''pointLights[1].position'' = Some (Vec3Value (- 77.0, 10.0, - 27.0)) \<and>
     uniform sm' ''pointLights[1].ambient'' = Some (Vec3Value (0.1, 0.1, 0.08)) \<and>
     uniform sm' ''pointLights[1].diffuse'' = Some (Vec3Value (0.5, 0.5, 0.4)) \<and>
     uniform sm' ''pointLights[1].specular'' = Some (Vec3Value (0.3, 0.3, 0.3)) \<and>
     uniform sm' ''pointLights[2].bActive'' = Some (BoolValue False) \<and>
     uniform sm' ''pointLights[3].bActive'' = Some (BoolValue False) \<and>
     uniform sm' ''pointLights[4].bActive'' = Some (BoolValue False) \<and>
     uniform sm' ''spotLight.bActive'' = Some (BoolValue False)"
  unfolding SetupSceneLights_eval [OF assms]
  by (simp add: uniform_def g_UseLightingName_def)

theorem SetupSceneLights_uploads_witness:
  "m_pShaderManager (SceneManager_new ShaderPtr) = ShaderPtr \<and>
   uniform lit_scene g_UseLightingName = Some (BoolValue True) \<and>
   uniform lit_scene ''pointLights[0].bActive'' = Some (BoolValue True) \<and>
   uniform lit_scene ''pointLights[0].specular'' = Some (Vec3Value (0.3, 0.3, 0.3)) \<and>
   uniform lit_scene ''pointLights[1].bActive'' = Some (BoolValue True) \<and>
   uniform lit_scene ''pointLights[2].bActive'' = Some (BoolValue False) \<and>
   uniform lit_scene ''pointLights[3].bActive'' = Some (BoolValue False) \<and>
   uniform lit_scene ''pointLights[4].bActive'' = Some (BoolValue False) \<and>
   uniform lit_scene ''spotLight.bActive'' = Some (BoolValue False)"
  using SetupSceneLights_uploads [OF lit_scene_eval(5)] lit_scene_eval(5)
  by (auto simp: lit_scene_eval(1))

subsection \<open>Material lookup\<close>

declare FindMaterial_loop.simps [simp del]

lemma FindMaterial_loop_miss:
  assumes "nat (int (length (m_objectMaterials sm)) - index) = n" "0 \<le> index"
    and "\<forall>i. index \<le> int i \<and> i < length (m_objectMaterials sm) \<longrightarrow>
           OBJECT_MATERIAL.tag (m_objectMaterials sm ! i) \<noteq> t"
  shows "FindMaterial_loop sm t index False material = material"
  using assms
proof (induction n arbitrary: index)
  case 0
  then show ?case
    by (subst FindMaterial_loop.simps) simp
next
  case (Suc n)
  then have lt: "index < int (length (m_objectMaterials sm))" by linarith
  with Suc.prems have ne: "OBJECT_MATERIAL.tag (m_objectMaterials sm ! nat index) \<noteq> t"
    by (metis int_nat_eq nat_less_iff order_refl)
  have "FindMaterial_loop sm t (index + 1) False material = material"
    using Suc.prems lt by (intro Suc.IH) auto
  with Suc.prems lt ne show ?case
    by (subst FindMaterial_loop.simps) simp
qed

lemma FindMaterial_miss:
  assumes "m_objectMaterials sm \<noteq> []" "t \<notin> set (material_tags sm)"
  shows "FindMaterial t material sm = (True, material)"
proof -
  have "\<forall>i. 0 \<le> int i \<and> i < length (m_objectMaterials sm) \<longrightarrow>
           OBJECT_MATERIAL.tag (m_objectMaterials sm ! i) \<noteq> t"
    using assms(2) by (auto simp: material_tags_def)
  then have "FindMaterial_loop sm t 0 False material = material"
    by (intro FindMaterial_loop_miss [OF refl]) auto
  with assms(1) show ?thesis
    by (simp add: FindMaterial_def)
qed

lemma defined_materials_eval:
  "m_objectMaterials defined_materials =
     [planeMaterial, cylinderMaterial, boxMaterial, sphereMaterial, lampBaseMaterial,
      lampShadeMaterial, bedMaterial, pillowMaterial, rugMaterial]"
  "m_pShaderManager defined_materials = ShaderPtr"
  "uniforms defined_materials = []"
  by (simp_all add: defined_materials_def DefineObjectMaterials_def push_back_def
      SceneManager_new_def)

lemma defined_materials_tags:
  "material_tags defined_materials =
     [''plane'', ''cylinder'', ''box'', ''sphere'', ''lampBase'', ''lampShade'', ''bed'',
      ''pillow'', ''rug'']"
  by (simp add: material_tags_def defined_materials_eval planeMaterial_def
      cylinderMaterial_def boxMaterial_def sphereMaterial_def lampBaseMaterial_def
      lampShadeMaterial_def bedMaterial_def pillowMaterial_def rugMaterial_def)

text \<open>
  Claim C2 says that \<^verbatim>\<open>FindMaterial\<close> returns false when no entry carries the tag. On the
  registry that \<^verbatim>\<open>DefineObjectMaterials\<close> builds, which has no entry \<open>nonexistent\<close>, the
  code returns true and the output material untouched: the function ends with
  \<^verbatim>\<open>return(true)\<close> whatever \<^verbatim>\<open>bFound\<close> holds.
\<close>

theorem FindMaterial_miss_returns_true:
  "m_objectMaterials defined_materials \<noteq> [] \<and>
   ''nonexistent'' \<notin> set (material_tags defined_materials) \<and>
   FindMaterial ''nonexistent'' material defined_materials = (True, material)"
proof -
  have a: "m_objectMaterials defined_materials \<noteq> []"
    by (simp add: defined_materials_eval)
  have b: "''nonexistent'' \<notin> set (material_tags defined_materials)"
    by (simp add: defined_materials_tags)
  from FindMaterial_miss [OF a b] a b show ?thesis by simp
qed

lemma FindMaterial_plane:
  "FindMaterial ''plane'' material defined_materials =
     (True, material\<lparr>diffuseColor := (0.8, 0.8, 0.8), specularColor := (0.2, 0.2, 0.2),
                       shininess := 16, ambientColor := (0.3, 0.3, 0.25),
                       ambientStrength := 0.3\<rparr>)"
  by (simp add: FindMaterial_def defined_materials_eval planeMaterial_def
      FindMaterial_loop.simps [of _ _ _ True]
      FindMaterial_loop.simps [of _ _ 0 False])

lemma plane_bound_eval:
  "SetShaderMaterial ''plane'' zero_material defined_materials = Inr plane_bound"
  "uniforms plane_bound =
     [(''material.shininess'', FloatValue 16),
      (''material.specularColor'', Vec3Value (0.2, 0.2, 0.2)),
      (''material.diffuseColor'', Vec3Value (0.8, 0.8, 0.8)),
      (''material.ambientStrength'', FloatValue 0.3),
      (''material.ambientColor'', Vec3Value (0.3, 0.3, 0.25))]"
  "m_objectMaterials plane_bound = m_objectMaterials defined_materials"
  "m_pShaderManager plane_bound = ShaderPtr"
  by (simp_all add: plane_bound_def SetShaderMaterial_def FindMaterial_plane
      defined_materials_eval setVec3Value_def setFloatValue_def setValue_def)

lemma plane_bound_tags: "material_tags plane_bound = material_tags defined_materials"
  by (simp add: material_tags_def plane_bound_eval)

text \<open>
  Claim C1 says that \<^verbatim>\<open>SetShaderMaterial\<close> with a tag that is not in the registry uploads
  nothing, so that after \<open>plane\<close> and then \<open>nonexistent\<close> the five uniforms hold the
  \<open>plane\<close> values. On the code, \<^verbatim>\<open>FindMaterial\<close> reports success for the missing tag, and
  the second call uploads the five fields of its uninitialised local: with an all-zero
  local the shininess uniform goes from 16 to 0.
\<close>

theorem SetShaderMaterial_miss_uploads:
  "SetShaderMaterial ''plane'' zero_material defined_materials = Inr plane_bound \<and>
   uniform plane_bound ''material.shininess'' = Some (FloatValue 16) \<and>
   ''nonexistent'' \<notin> set (material_tags plane_bound) \<and>
   SetShaderMaterial ''nonexistent'' uninitialized plane_bound =
     Inr (plane_bound\<lparr>uniforms :=
       [(''material.shininess'', FloatValue (shininess uninitialized)),
        (''material.specularColor'', Vec3Value (specularColor uninitialized)),
        (''material.diffuseColor'', Vec3Value (diffuseColor uninitialized)),
        (''material.ambientStrength'', FloatValue (ambientStrength uninitialized)),
        (''material.ambientColor'', Vec3Value (ambientColor uninitialized))]
       @ uniforms plane_bound\<rparr>) \<and>
   map_sum id (\<lambda>sm. uniform sm ''material.shininess'')
     (SetShaderMaterial ''nonexistent'' zero_material plane_bound) = Inr (Some (FloatValue 0))"
proof -
  have a: "m_objectMaterials plane_bound \<noteq> []"
    by (simp add: plane_bound_eval defined_materials_eval)
  have b: "''nonexistent'' \<notin> set (material_tags plane_bound)"
    by (simp add: plane_bound_tags defined_materials_tags)
  have c: "SetShaderMaterial ''nonexistent'' u plane_bound =
     Inr (plane_bound\<lparr>uniforms :=
       [(''material.shininess'', FloatValue (shininess u)),
        (''material.specularColor'', Vec3Value (specularColor u)),
        (''material.diffuseColor'', Vec3Value (diffuseColor u)),
        (''material.ambientStrength'', FloatValue (ambientStrength u)),
        (''material.ambientColor'', Vec3Value (ambientColor u))]
       @ uniforms plane_bound\<rparr>)" for u
    using a by (simp add: SetShaderMaterial_def FindMaterial_miss [OF a b]
        setVec3Value_def setFloatValue_def setValue_def plane_bound_eval(4))
  have d: "uniform plane_bound ''material.shininess'' = Some (FloatValue 16)"
    by (simp add: uniform_def plane_bound_eval)
  have e: "map_sum id (\<lambda>sm. uniform sm ''material.shininess'')
     (SetShaderMaterial ''nonexistent'' zero_material plane_bound) = Inr (Some (FloatValue 0))"
    by (simp add: c uniform_def zero_material_def)
  from plane_bound_eval(1) b c d e show ?thesis
    by blast
qed

subsection \<open>Scene preparation\<close>

lemma register_rgb_eval:
  assumes "0 \<le> m_loadedTextures sm" "m_loadedTextures sm < int (length (m_textureIDs sm))"
  shows "CreateGLTexture_ignored stbi_load_rgb filename t sm =
     Inr (sm\<lparr>console := LoadedImage filename 512 512 3 # console sm,
              gl := (gl sm)\<lparr>next_texture_name := next_texture_name (gl sm) + 1,
                     texture_binding_2d :=
                       (texture_binding_2d (gl sm))(active_texture (gl sm) := 0)\<rparr>,
              m_textureIDs := (m_textureIDs sm)[nat (m_loadedTextures sm) :=
                                \<lparr>ID = next_texture_name (gl sm), tag = t\<rparr>],
              m_loadedTextures := m_loadedTextures sm + 1\<rparr>)"
  using assms
  by (simp add: CreateGLTexture_ignored_def CreateGLTexture_def stbi_load_rgb_def gl_calls
      Let_def)

lemma prepared_scene_run:
  "PrepareScene stbi_load_rgb (SceneManager_new ShaderPtr) = Inr prepared_scene"
  "m_loadedTextures prepared_scene = 5"
  "take 5 (m_textureIDs prepared_scene) =
     [\<lparr>ID = 1, tag = ''oakd''\<rparr>, \<lparr>ID = 2, tag = ''oakl''\<rparr>, \<lparr>ID = 3, tag = ''brass''\<rparr>,
      \<lparr>ID = 4, tag = ''carpet''\<rparr>, \<lparr>ID = 5, tag = ''sheet''\<rparr>]"
  "length (m_textureIDs prepared_scene) = 16"
  "texture_binding_2d (gl prepared_scene) unit = 0"
  "active_texture (gl prepared_scene) = 0"
  by (simp_all add: prepared_scene_def PrepareScene_def SetupSceneLights_eval
      SceneManager_new_def DefineObjectMaterials_def push_back_def LoadMesh_def
      register_rgb_eval texture_capacity_def initial_gl_def eval_nat_numeral)

lemma loaded_textures_scene_run:
  "LoadSceneTextures stbi_load_rgb (SceneManager_new ShaderPtr) = Inr loaded_textures_scene"
  "slot_handles loaded_textures_scene = [1, 2, 3]"
  "unit_bindings loaded_textures_scene = [1, 2, 3]"
  by (simp_all add: loaded_textures_scene_def LoadSceneTextures_def SceneManager_new_def
      register_rgb_eval texture_capacity_def initial_gl_def BindGLTextures_def
      texture_at_def glBindTexture_def glActiveTexture_def slot_handles_def
      unit_bindings_def eval_nat_numeral)

lemma prepared_scene_first_texture:
  "SetShaderTexture ''oakd'' prepared_scene =
     Inr (prepared_scene\<lparr>uniforms :=
       [(g_TextureValueName, Sampler2DValue 0), (g_UseTextureName, IntValue 1)]
       @ uniforms prepared_scene\<rparr>)"
proof -
  define sm1 where
    "sm1 = prepared_scene\<lparr>uniforms := (g_UseTextureName, IntValue 1) # uniforms prepared_scene\<rparr>"
  have ptr: "m_pShaderManager prepared_scene = ShaderPtr"
    by (simp add: prepared_scene_def PrepareScene_def SetupSceneLights_eval
      SceneManager_new_def DefineObjectMaterials_def push_back_def LoadMesh_def
      register_rgb_eval texture_capacity_def initial_gl_def)
  have "take 5 (m_textureIDs sm1) ! 0 = \<lparr>ID = 1, tag = ''oakd''\<rparr>"
    by (simp add: sm1_def prepared_scene_run)
  then have first: "TEXTURE_INFO.tag (m_textureIDs sm1 ! 0) = ''oakd''"
    by simp
  have "FindTextureSlot_loop sm1 ''oakd'' 0 False (- 1) = Inr (int 0)"
    using first
    by (intro FindTextureSlot_loop_first [OF refl]) (simp_all add: sm1_def prepared_scene_run)
  then have "FindTextureSlot ''oakd'' sm1 = Inr 0"
    by (simp add: FindTextureSlot_def)
  with ptr show ?thesis
    by (simp add: SetShaderTexture_def setIntValue_def setSampler2DValue_def setValue_def
        sm1_def)
qed

text \<open>
  Claim C3 says that \<^verbatim>\<open>PrepareScene\<close> binds every registered texture to its unit. On the
  code it registers five textures and never calls \<^verbatim>\<open>BindGLTextures\<close>: afterwards the
  slots hold the handles 1 to 5 and no unit has a texture bound, while
  \<^verbatim>\<open>SetShaderTexture("oakd")\<close>, the first texture selection of \<^verbatim>\<open>RenderScene\<close>, points the
  sampler at unit 0. \<^verbatim>\<open>LoadSceneTextures\<close>, which nothing calls, does end with
  \<^verbatim>\<open>BindGLTextures\<close>, and after it the units hold the handles of the slots.
\<close>

theorem PrepareScene_never_binds:
  "PrepareScene stbi_load_rgb (SceneManager_new ShaderPtr) = Inr prepared_scene \<and>
   registered_tags prepared_scene = [''oakd'', ''oakl'', ''brass'', ''carpet'', ''sheet''] \<and>
   slot_handles prepared_scene = [1, 2, 3, 4, 5] \<and>
   unit_bindings prepared_scene = [0, 0, 0, 0, 0] \<and>
   SetShaderTexture ''oakd'' prepared_scene =
     Inr (prepared_scene\<lparr>uniforms :=
       [(g_TextureValueName, Sampler2DValue 0), (g_UseTextureName, IntValue 1)]
       @ uniforms prepared_scene\<rparr>) \<and>
   LoadSceneTextures stbi_load_rgb (SceneManager_new ShaderPtr) = Inr loaded_textures_scene \<and>
   slot_handles loaded_textures_scene = [1, 2, 3] \<and>
   unit_bindings loaded_textures_scene = [1, 2, 3]"
proof -
  have "registered_tags prepared_scene = [''oakd'', ''oakl'', ''brass'', ''carpet'', ''sheet'']"
    by (simp add: registered_tags_def prepared_scene_run)
  moreover have "slot_handles prepared_scene = [1, 2, 3, 4, 5]"
    by (simp add: slot_handles_def prepared_scene_run)
  moreover have "unit_bindings prepared_scene = [0, 0, 0, 0, 0]"
    by (simp add: unit_bindings_def prepared_scene_run upt_conv_Cons)
  ultimately show ?thesis
    using prepared_scene_first_texture
    by (simp add: prepared_scene_run(1) loaded_textures_scene_run)
qed

subsection \<open>Transform composition\<close>

lemma glm_scale_eval:
  "glm_scale (sx, sy, sz) = ((sx, 0, 0, 0), (0, sy, 0, 0), (0, 0, sz, 0), (0, 0, 0, 1))"
  by (simp add: glm_scale_def mat4_identity_def)

lemma glm_translate_eval:
  "glm_translate (tx, ty, tz) = ((1, 0, 0, 0), (0, 1, 0, 0), (0, 0, 1, 0), (tx, ty, tz, 1))"
  by (simp add: glm_translate_def mat4_identity_def)

lemma glm_rotate_x:
  "glm_rotate a (1, 0, 0) =
     ((1, 0, 0, 0), (0, cos a, sin a, 0), (0, - sin a, cos a, 0), (0, 0, 0, 1))"
  by (simp add: glm_rotate_def mat4_identity_def Let_def)

lemma glm_rotate_y:
  "glm_rotate a (0, 1, 0) =
     ((cos a, 0, - sin a, 0), (0, 1, 0, 0), (sin a, 0, cos a, 0), (0, 0, 0, 1))"
  by (simp add: glm_rotate_def mat4_identity_def Let_def)

lemma glm_rotate_z:
  "glm_rotate a (0, 0, 1) =
     ((cos a, sin a, 0, 0), (- sin a, cos a, 0, 0), (0, 0, 1, 0), (0, 0, 0, 1))"
  by (simp add: glm_rotate_def mat4_identity_def Let_def)

lemma scale_matrix_point:
  "mat4_times_vec4 (glm_scale s) (homogeneous p) = homogeneous (scale_point s p)"
  by (cases s, cases p) (simp add: glm_scale_eval)

lemma translate_matrix_point:
  "mat4_times_vec4 (glm_translate t) (homogeneous p) = homogeneous (translate_point t p)"
  by (cases t, cases p) (simp add: glm_translate_eval)

lemma rotate_x_matrix_point:
  "mat4_times_vec4 (glm_rotate a (1, 0, 0)) (homogeneous p) = homogeneous (rotate_x_point a p)"
  by (cases p) (simp add: glm_rotate_x algebra_simps)

lemma rotate_y_matrix_point:
  "mat4_times_vec4 (glm_rotate a (0, 1, 0)) (homogeneous p) = homogeneous (rotate_y_point a p)"
  by (cases p) (simp add: glm_rotate_y algebra_simps)

lemma rotate_z_matrix_point:
  "mat4_times_vec4 (glm_rotate a (0, 0, 1)) (homogeneous p) = homogeneous (rotate_z_point a p)"
  by (cases p) (simp add: glm_rotate_z algebra_simps)

lemma vec4_times_plus:
  "vec4_times (vec4_plus u v) s = vec4_plus (vec4_times u s) (vec4_times v s)"
  by (cases u, cases v) (simp add: algebra_simps)

lemma vec4_times_times: "vec4_times (vec4_times u r) s = vec4_times u (r * s)"
  by (cases u) (simp add: algebra_simps)

lemma mat4_times_column_eq: "mat4_times_column m v = mat4_times_vec4 m v"
proof -
  obtain a0 a1 a2 a3 where m: "m = (a0, a1, a2, a3)" by (cases m)
  obtain x y z w where v: "v = (x, y, z, w)" by (cases v)
  obtain a00 a01 a02 a03 where a0: "a0 = (a00, a01, a02, a03)" by (cases a0)
  obtain a10 a11 a12 a13 where a1: "a1 = (a10, a11, a12, a13)" by (cases a1)
  obtain a20 a21 a22 a23 where a2: "a2 = (a20, a21, a22, a23)" by (cases a2)
  obtain a30 a31 a32 a33 where a3: "a3 = (a30, a31, a32, a33)" by (cases a3)
  show ?thesis
    unfolding m v a0 a1 a2 a3 by simp
qed

lemma mat4_times_vec4_apply:
  "mat4_times_vec4 (mat4_times m1 m2) v = mat4_times_vec4 m1 (mat4_times_vec4 m2 v)"
proof -
  obtain a0 a1 a2 a3 where m1: "m1 = (a0, a1, a2, a3)" by (cases m1)
  obtain b0 b1 b2 b3 where m2: "m2 = (b0, b1, b2, b3)" by (cases m2)
  obtain x y z w where v: "v = (x, y, z, w)" by (cases v)
  obtain a00 a01 a02 a03 where a0: "a0 = (a00, a01, a02, a03)" by (cases a0)
  obtain a10 a11 a12 a13 where a1: "a1 = (a10, a11, a12, a13)" by (cases a1)
  obtain a20 a21 a22 a23 where a2: "a2 = (a20, a21, a22, a23)" by (cases a2)
  obtain a30 a31 a32 a33 where a3: "a3 = (a30, a31, a32, a33)" by (cases a3)
  obtain b00 b01 b02 b03 where b0: "b0 = (b00, b01, b02, b03)" by (cases b0)
  obtain b10 b11 b12 b13 where b1: "b1 = (b10, b11, b12, b13)" by (cases b1)
  obtain b20 b21 b22 b23 where b2: "b2 = (b20, b21, b22, b23)" by (cases b2)
  obtain b30 b31 b32 b33 where b3: "b3 = (b30, b31, b32, b33)" by (cases b3)
  show ?thesis
    unfolding m1 m2 v a0 a1 a2 a3 b0 b1 b2 b3
    by (simp add: algebra_simps)
qed

lemma mat4_times_assoc:
  "mat4_times (mat4_times m1 m2) m3 = mat4_times m1 (mat4_times m2 m3)"
  by (cases m3) (simp add: mat4_times_column_eq mat4_times_vec4_apply)

lemma glm_radians_eq: "glm_radians d = d * pi / 180"
  by (simp add: glm_radians_def)

lemma compose_matrix_spec_point:
  "mat4_times_vec4 (compose_matrix_spec s xd yd zd t) (homogeneous p) =
     homogeneous (compose_spec s xd yd zd t p)"
  by (simp add: compose_matrix_spec_def compose_spec_def mat4_times_vec4_apply
      scale_matrix_point translate_matrix_point rotate_x_matrix_point rotate_y_matrix_point
      rotate_z_matrix_point)

lemma SetTransformations_eval:
  assumes "m_pShaderManager sm = ShaderPtr"
  shows "SetTransformations s xd yd zd t sm =
     Inr (sm\<lparr>uniforms :=
       (g_ModelName, Mat4Value (compose_matrix_spec s xd yd zd t)) # uniforms sm\<rparr>)"
  using assms
  by (simp add: SetTransformations_def Let_def setMat4Value_def setValue_def
      mat4_times_assoc compose_matrix_spec_def glm_radians_eq)

text \<open>
  Claim C6. With a shader manager present, \<^verbatim>\<open>SetTransformations\<close> uploads as the model
  matrix the product Translation \<open>\<cdot>\<close> RotationZ \<open>\<cdot>\<close> RotationY \<open>\<cdot>\<close> RotationX \<open>\<cdot>\<close> Scale, with
  the angles converted from degrees to radians, and that matrix takes every point to its
  image under scaling, then rotation about X, then about Y, then about Z, then translation.
\<close>

theorem SetTransformations_composition_order:
  assumes "m_pShaderManager sm = ShaderPtr"
  shows "SetTransformations scaleXYZ xDegrees yDegrees zDegrees positionXYZ sm =
           Inr (sm\<lparr>uniforms :=
             (g_ModelName,
              Mat4Value (compose_matrix_spec scaleXYZ xDegrees yDegrees zDegrees positionXYZ))
             # uniforms sm\<rparr>) \<and>
         (\<forall>p. mat4_times_vec4
                (compose_matrix_spec scaleXYZ xDegrees yDegrees zDegrees positionXYZ)
                (homogeneous p) =
              homogeneous (compose_spec scaleXYZ xDegrees yDegrees zDegrees positionXYZ p))"
  using SetTransformations_eval [OF assms] compose_matrix_spec_point by simp

lemma compose_spec_quarter_turn:
  "compose_spec (2, 3, 4) 90 0 0 (10, 20, 30) (1, 1, 1) = (12, 16, 33)"
  by (simp add: compose_spec_def)

lemma composition_order_matters:
  "translate_point (10, 20, 30) (rotate_x_point (pi / 2) (scale_point (2, 3, 4) (1, 1, 1)))
     \<noteq> rotate_x_point (pi / 2) (translate_point (10, 20, 30) (scale_point (2, 3, 4) (1, 1, 1)))"
  by simp

theorem SetTransformations_composition_order_witness:
  "m_pShaderManager (SceneManager_new ShaderPtr) = ShaderPtr \<and>
   SetTransformations (2, 3, 4) 90 0 0 (10, 20, 30) (SceneManager_new ShaderPtr) =
     Inr ((SceneManager_new ShaderPtr)\<lparr>uniforms :=
       [(g_ModelName, Mat4Value (compose_matrix_spec (2, 3, 4) 90 0 0 (10, 20, 30)))]\<rparr>) \<and>
   mat4_times_vec4 (compose_matrix_spec (2, 3, 4) 90 0 0 (10, 20, 30)) (1, 1, 1, 1)
     = (12, 16, 33, 1)"
proof -
  have h: "m_pShaderManager (SceneManager_new ShaderPtr) = ShaderPtr"
    by (simp add: SceneManager_new_def)
  have u: "uniforms (SceneManager_new ShaderPtr) = []"
    by (simp add: SceneManager_new_def)
  have p: "homogeneous (1, 1, 1) = (1, 1, 1, 1)" by simp
  from SetTransformations_composition_order [OF h, of "(2, 3, 4)" 90 0 0 "(10, 20, 30)"]
  have "SetTransformations (2, 3, 4) 90 0 0 (10, 20, 30) (SceneManager_new ShaderPtr) =
     Inr ((SceneManager_new ShaderPtr)\<lparr>uniforms :=
       [(g_ModelName, Mat4Value (compose_matrix_spec (2, 3, 4) 90 0 0 (10, 20, 30)))]\<rparr>)"
    and "mat4_times_vec4 (compose_matrix_spec (2, 3, 4) 90 0 0 (10, 20, 30)) (homogeneous (1, 1, 1))
       = homogeneous (compose_spec (2, 3, 4) 90 0 0 (10, 20, 30) (1, 1, 1))"
    by (simp_all add: u)
  with h show ?thesis
    by (simp add: compose_spec_quarter_turn)
qed

end
